theory Spec2Isabelle
  imports Main "HOL-Library.Word" "HOL-Library.AList"
begin

section \<open>Shared data model (package protocol, as used by the sources)\<close>

text \<open>
  The package \<open>protocol\<close> is not part of the sources at hand; only its uses are. Its
  types are modelled from the specification's data model:
  \<^item> a PeerID is represented by its canonical string form (\<open>PeerID.String()\<close>), which is
    also the key of the directory's index and of its backing table;
  \<^item> a NetworkAddress is opaque and only used as a routing key;
  \<^item> a GroupID is opaque, with the distinguished \<open>NilGroupID\<close>.
\<close>

type_synonym bytes = "8 word list"
type_synonym peer_id = string
type_synonym network_address = string

datatype group_id = NilGroupID | GroupID nat

record peer_address =
  PeerID :: peer_id
  NetworkAddress :: network_address
  Nonce :: int

text \<open>
  Modelled from the spec: \<open>PeerAddress.IsNewer\<close> is declared in package protocol, which is
  missing. The spec: "IsNewer(other) compares nonces; higher nonce wins; a nil other is
  always older". The argument is an interface value in Go and may be nil: \<open>None\<close>.
\<close>

definition IsNewer :: "peer_address \<Rightarrow> peer_address option \<Rightarrow> bool" where
  "IsNewer a other = (case other of None \<Rightarrow> True | Some b \<Rightarrow> Nonce b < Nonce a)"

datatype version = V1 | VersionOther nat
datatype variant = protocol_Ping | protocol_Pong | protocol_Cast | protocol_Broadcast | VariantOther nat

record message =
  Version :: version
  Variant :: variant
  MsgGroupID :: group_id
  Body :: bytes

definition NewMessage :: "version \<Rightarrow> variant \<Rightarrow> group_id \<Rightarrow> bytes \<Rightarrow> message" where
  "NewMessage v var g b = \<lparr>Version = v, Variant = var, MsgGroupID = g, Body = b\<rparr>"

record 'a message_on_the_wire =
  To :: 'a
  Message :: message

datatype event =
    EventMessageReceived nat bytes "peer_id option"
  | EventPeerChanged nat peer_address

text \<open>
  Every Go \<open>error\<close> value the modelled functions can return. Errors built with
  \<open>fmt.Errorf("...: %v", err)\<close> keep their cause as an argument. \<open>ErrExternal\<close> stands for
  an error of an external collaborator (key-value table, codec, signer, cipher). \<open>EOF\<close>
  and \<open>ErrUnexpectedEOF\<close> are those of package io. A run-time panic is not an error value
  in Go; it aborts the call, which the model records as the result \<open>Panic\<close>.
\<close>

datatype error =
    ErrKeyNotFound
  | ErrExternal string
  | ContextCanceled
  | ErrPeerNotFound peer_id
  | ErrGroupNotFound group_id
  | ErrInvalidGroupID
  | ErrEncodingPeerAddress peer_address error
  | ErrInsertingPeerAddress peer_address error
  | ErrDeletingPeer peer_id error
  | ErrGettingMessageHash string error
  | ErrBroadcastInternal error
  | ErrBroadcasting error group_id
  | ErrAcceptingBroadcast error
  | ErrMessageVersionIsNotSupported version
  | ErrMessageVariantIsNotSupported variant
  | ErrEmptyPeerAddresses
  | EOF
  | ErrUnexpectedEOF
  | ErrFailedToRead nat nat "error option"
  | ErrFailedToReadPubKey nat nat "error option"
  | ErrFailedToReadChallenge nat nat "error option"
  | ErrFailedToDecryptChallenge nat "error option"
  | ErrFailedToAddSignature nat "error option"
  | ErrInitiatorFailedChallenge bytes bytes
  | Panic string

text \<open>
  A \<open>context.Context\<close> is modelled by what \<open>ctx.Err()\<close> returns during the call:
  \<open>None\<close> while the context is live, \<open>Some cause\<close> once it is done.
\<close>

type_synonym ctx = "error option"

subsection \<open>The key-value table (external library kv)\<close>

text \<open>
  \<open>kv.Table\<close> is an external interface. It is modelled as a finite map together with the
  faults the backing medium injects: for each key, the error (if any) that \<open>Get\<close>,
  \<open>Insert\<close> or \<open>Delete\<close> on that key returns. A failed operation leaves the table as it was.
\<close>

record 'v kv_table =
  entries :: "string \<rightharpoonup> 'v"
  Get_fault :: "string \<Rightarrow> error option"
  Insert_fault :: "string \<Rightarrow> error option"
  Delete_fault :: "string \<Rightarrow> error option"

definition kv_Get :: "'v kv_table \<Rightarrow> string \<Rightarrow> error + 'v" where
  "kv_Get t k =
     (case Get_fault t k of
        Some e \<Rightarrow> Inl e
      | None \<Rightarrow> (case entries t k of None \<Rightarrow> Inl ErrKeyNotFound | Some v \<Rightarrow> Inr v))"

definition kv_Insert :: "'v kv_table \<Rightarrow> string \<Rightarrow> 'v \<Rightarrow> error option \<times> 'v kv_table" where
  "kv_Insert t k v =
     (case Insert_fault t k of
        Some e \<Rightarrow> (Some e, t)
      | None \<Rightarrow> (None, t\<lparr>entries := (entries t)(k \<mapsto> v)\<rparr>))"

definition kv_Delete :: "'v kv_table \<Rightarrow> string \<Rightarrow> error option \<times> 'v kv_table" where
  "kv_Delete t k =
     (case Delete_fault t k of
        Some e \<Rightarrow> (Some e, t)
      | None \<Rightarrow> (None, t\<lparr>entries := (entries t)(k := None)\<rparr>))"

record peer_address_codec =
  Encode :: "peer_address \<Rightarrow> error + bytes"
  Decode :: "bytes \<Rightarrow> error + peer_address"

section \<open>The peer-address directory (package dht)\<close>

text \<open>
  The struct \<open>dht\<close>. The two mutexes only serialise the operations and are not modelled:
  every operation below is one critical section. The Go map \<open>inMemCache\<close> is an
  association list with distinct keys, so that \<open>PeerAddresses\<close> can enumerate it; Go
  leaves the iteration order of a map unspecified, the model uses the order of the list.
\<close>

record dht =
  me :: peer_address
  codec :: peer_address_codec
  store :: "bytes kv_table"
  groups :: "group_id \<rightharpoonup> peer_id list"
  inMemCache :: "(string \<times> peer_address) list"

definition Me :: "dht \<Rightarrow> peer_address" where
  "Me d = me d"

definition NumPeers :: "dht \<Rightarrow> nat" where
  "NumPeers d = length (inMemCache d)"

definition PeerAddresses :: "dht \<Rightarrow> error + peer_address list" where
  "PeerAddresses d = Inr (map snd (inMemCache d))"

definition PeerAddress :: "dht \<Rightarrow> peer_id \<Rightarrow> error + peer_address" where
  "PeerAddress d pid =
     (case map_of (inMemCache d) pid of
        None \<Rightarrow> Inl (ErrPeerNotFound pid)
      | Some peerAddr \<Rightarrow> Inr peerAddr)"

definition addPeerAddressWithoutLock :: "dht \<Rightarrow> peer_address \<Rightarrow> error option \<times> dht" where
  "addPeerAddressWithoutLock d peerAddr =
     (case Encode (codec d) peerAddr of
        Inl err \<Rightarrow> (Some (ErrEncodingPeerAddress peerAddr err), d)
      | Inr data \<Rightarrow>
          (case kv_Insert (store d) (PeerID peerAddr) data of
             (Some err, st) \<Rightarrow> (Some (ErrInsertingPeerAddress peerAddr err), d\<lparr>store := st\<rparr>)
           | (None, st) \<Rightarrow>
               (None, d\<lparr>store := st,
                        inMemCache := AList.update (PeerID peerAddr) peerAddr (inMemCache d)\<rparr>)))"

definition AddPeerAddress :: "dht \<Rightarrow> peer_address \<Rightarrow> error option \<times> dht" where
  "AddPeerAddress d peerAddr = addPeerAddressWithoutLock d peerAddr"

definition UpdatePeerAddress :: "dht \<Rightarrow> peer_address \<Rightarrow> (bool \<times> error option) \<times> dht" where
  "UpdatePeerAddress d peerAddr =
     (let prevPeerAddr = map_of (inMemCache d) (PeerID peerAddr) in
      if prevPeerAddr \<noteq> None \<and> \<not> IsNewer peerAddr prevPeerAddr then ((False, None), d)
      else (case addPeerAddressWithoutLock d peerAddr of
              (err, d') \<Rightarrow> ((err = None, err), d')))"

definition RemovePeerAddress :: "dht \<Rightarrow> peer_id \<Rightarrow> error option \<times> dht" where
  "RemovePeerAddress d pid =
     (case kv_Delete (store d) pid of
        (Some err, st) \<Rightarrow> (Some (ErrDeletingPeer pid err), d\<lparr>store := st\<rparr>)
      | (None, st) \<Rightarrow> (None, d\<lparr>store := st, inMemCache := AList.delete pid (inMemCache d)\<rparr>))"

definition AddGroup :: "dht \<Rightarrow> group_id \<Rightarrow> peer_id list \<Rightarrow> error option \<times> dht" where
  "AddGroup d gid ids =
     (if gid = NilGroupID then (Some ErrInvalidGroupID, d)
      else (None, d\<lparr>groups := (groups d)(gid \<mapsto> ids)\<rparr>))"

definition GroupIDs :: "dht \<Rightarrow> group_id \<Rightarrow> error + peer_id list" where
  "GroupIDs d groupID =
     (if groupID = NilGroupID then
        (case PeerAddresses d of
           Inl err \<Rightarrow> Inl err
         | Inr addrs \<Rightarrow> Inr (map PeerID addrs))
      else
        (case groups d groupID of
           None \<Rightarrow> Inl (ErrGroupNotFound groupID)
         | Some peerIDs \<Rightarrow> Inr peerIDs))"

text \<open>The loop of \<open>GroupAddresses\<close> over the group's PeerIDs; \<open>addrs\<close> is its accumulator.\<close>

fun GroupAddresses_loop :: "dht \<Rightarrow> peer_id list \<Rightarrow> peer_address list \<Rightarrow> peer_address list" where
  "GroupAddresses_loop d [] addrs = addrs"
| "GroupAddresses_loop d (pid # ids) addrs =
     (if pid = PeerID (me d) then GroupAddresses_loop d ids (addrs @ [me d])
      else (case map_of (inMemCache d) pid of
              None \<Rightarrow> GroupAddresses_loop d ids addrs
            | Some addr \<Rightarrow> GroupAddresses_loop d ids (addrs @ [addr])))"

definition GroupAddresses :: "dht \<Rightarrow> group_id \<Rightarrow> error + peer_address list" where
  "GroupAddresses d groupID =
     (if groupID = NilGroupID then PeerAddresses d
      else (case GroupIDs d groupID of
              Inl err \<Rightarrow> Inl err
            | Inr ids \<Rightarrow> Inr (GroupAddresses_loop d ids [])))"

definition RemoveGroup :: "dht \<Rightarrow> group_id \<Rightarrow> dht" where
  "RemoveGroup d gid = d\<lparr>groups := (groups d)(gid := None)\<rparr>"

section \<open>Queues and cancellation\<close>

text \<open>
  A Go channel the core only sends on (\<open>protocol.MessageSender\<close>, \<open>protocol.EventSender\<close>)
  is the list of values sent so far, oldest first. The blocking statement
  \<^verbatim>\<open>select { case <-ctx.Done(): ... case ch <- x: ... }\<close>
  sends when the context is live (the consumer of the queue is external) and takes the
  \<open>Done\<close> branch, returning \<open>ctx.Err()\<close>, when the context is done.
\<close>

definition select_send :: "ctx \<Rightarrow> 'a list \<Rightarrow> 'a \<Rightarrow> error option \<times> 'a list" where
  "select_send c ch x = (case c of Some cause \<Rightarrow> (Some cause, ch) | None \<Rightarrow> (None, ch @ [x]))"

text \<open>
  Modelled from the spec: \<open>protocol.ParForAllAddresses\<close> is missing. The spec: "Fan out
  [...] for every address in addrs, using a worker pool of configurable size numWorkers".
  The workers only append to the outbound queue, so the pool is modelled by running the
  function once per address, in the order of the list; the order in which the workers
  complete is not specified by the source.
\<close>

fun ParForAllAddresses ::
  "peer_address option list \<Rightarrow> int \<Rightarrow> (peer_address option \<Rightarrow> 's \<Rightarrow> 's) \<Rightarrow> 's \<Rightarrow> 's" where
  "ParForAllAddresses [] n f s = s"
| "ParForAllAddresses (a # as) n f s = ParForAllAddresses as n f (f a s)"

section \<open>The gossip broadcaster (package broadcast)\<close>

text \<open>
  The struct \<open>broadcaster\<close> (the logger is left out). \<open>Message.Hash().String()\<close> belongs
  to the missing package protocol; the functions below take it as the parameter \<open>Hash\<close>.
\<close>

record broadcaster =
  numWorkers :: int
  b_store :: "bool kv_table"
  b_messages :: "peer_address message_on_the_wire list"
  b_events :: "event list"
  b_dht :: dht

definition messageHashAlreadySeen :: "broadcaster \<Rightarrow> string \<Rightarrow> bool \<times> error option" where
  "messageHashAlreadySeen b h =
     (case kv_Get (b_store b) h of
        Inl err \<Rightarrow> (if err = ErrKeyNotFound then (False, None) else (False, Some err))
      | Inr exists \<Rightarrow> (exists, None))"

text \<open>The function literal that \<open>Broadcast\<close> hands to the worker pool.\<close>

definition Broadcast_worker ::
  "ctx \<Rightarrow> message \<Rightarrow> peer_address option \<Rightarrow> peer_address message_on_the_wire list
     \<Rightarrow> peer_address message_on_the_wire list" where
  "Broadcast_worker c message to msgs =
     (case to of
        None \<Rightarrow> msgs
      | Some a \<Rightarrow> snd (select_send c msgs \<lparr>To = a, Message = message\<rparr>))"

definition Broadcast ::
  "(message \<Rightarrow> string) \<Rightarrow> ctx \<Rightarrow> broadcaster \<Rightarrow> group_id \<Rightarrow> bytes \<Rightarrow> error option \<times> broadcaster" where
  "Broadcast Hash c b groupID body =
     (let message = NewMessage V1 protocol_Broadcast groupID body in
      case messageHashAlreadySeen b (Hash message) of
        (ok, Some err) \<Rightarrow>
          (Some (ErrBroadcastInternal (ErrGettingMessageHash (Hash message) err)), b)
      | (True, None) \<Rightarrow> (None, b)
      | (False, None) \<Rightarrow>
          (case GroupAddresses (b_dht b) groupID of
             Inl err \<Rightarrow> (Some err, b)
           | Inr addrs \<Rightarrow>
               (case c of
                  Some cause \<Rightarrow> (Some (ErrBroadcasting cause groupID), b)
                | None \<Rightarrow>
                    (case kv_Insert (b_store b) (Hash message) True of
                       (Some err, st) \<Rightarrow> (Some err, b\<lparr>b_store := st\<rparr>)
                     | (None, st) \<Rightarrow>
                         (None, b\<lparr>b_store := st,
                                  b_messages :=
                                    ParForAllAddresses (map Some addrs) (numWorkers b)
                                      (Broadcast_worker c message) (b_messages b)\<rparr>)))))"

definition AcceptBroadcast ::
  "(message \<Rightarrow> string) \<Rightarrow> nat \<Rightarrow> ctx \<Rightarrow> broadcaster \<Rightarrow> peer_id \<Rightarrow> message
     \<Rightarrow> error option \<times> broadcaster" where
  "AcceptBroadcast Hash now c b sender message =
     (if Version message \<noteq> V1 then
        (Some (ErrMessageVersionIsNotSupported (Version message)), b)
      else if Variant message \<noteq> protocol_Broadcast then
        (Some (ErrMessageVariantIsNotSupported (Variant message)), b)
      else
        (case messageHashAlreadySeen b (Hash message) of
           (ok, Some err) \<Rightarrow>
             (Some (ErrBroadcastInternal (ErrGettingMessageHash (Hash message) err)), b)
         | (True, None) \<Rightarrow> (None, b)
         | (False, None) \<Rightarrow>
             (case c of
                Some cause \<Rightarrow> (Some (ErrAcceptingBroadcast cause), b)
              | None \<Rightarrow>
                  (case select_send c (b_events b)
                          (EventMessageReceived now (Body message) (Some sender)) of
                     (Some cause, evs) \<Rightarrow> (Some (ErrAcceptingBroadcast cause), b)
                   | (None, evs) \<Rightarrow>
                       Broadcast Hash c (b\<lparr>b_events := evs\<rparr>)
                         (MsgGroupID message) (Body message)))))"

section \<open>The ping/pong engine (package pingpong)\<close>

text \<open>
  The struct \<open>pingPonger\<close>. Ping and Pong messages carry no group; \<open>NewMessage\<close> is called
  without one, which is modelled by \<open>NilGroupID\<close>.
\<close>

record pingPonger =
  pp_dht :: dht
  pp_messages :: "network_address message_on_the_wire list"
  pp_events :: "event list"
  pp_codec :: peer_address_codec
  pp_me :: peer_address

definition updatePeerAddress ::
  "nat \<Rightarrow> ctx \<Rightarrow> pingPonger \<Rightarrow> peer_address \<Rightarrow> (bool \<times> error option) \<times> pingPonger" where
  "updatePeerAddress now c pp peerAddr =
     (case PeerAddress (pp_dht pp) (PeerID peerAddr) of
        Inl err \<Rightarrow> ((False, Some err), pp)
      | Inr prevPeerAddr \<Rightarrow>
          (if \<not> IsNewer peerAddr (Some prevPeerAddr) then ((False, None), pp)
           else
             (case AddPeerAddress (pp_dht pp) peerAddr of
                (Some err, d') \<Rightarrow> ((False, Some err), pp\<lparr>pp_dht := d'\<rparr>)
              | (None, d') \<Rightarrow>
                  (case select_send c (pp_events pp) (EventPeerChanged now peerAddr) of
                     (Some cause, evs) \<Rightarrow> ((False, Some cause), pp\<lparr>pp_dht := d'\<rparr>)
                   | (None, evs) \<Rightarrow>
                       ((True, None), pp\<lparr>pp_dht := d', pp_events := evs\<rparr>)))))"

definition pong :: "ctx \<Rightarrow> pingPonger \<Rightarrow> peer_address \<Rightarrow> error option \<times> pingPonger" where
  "pong c pp to =
     (case Encode (pp_codec pp) (pp_me pp) of
        Inl err \<Rightarrow> (Some err, pp)
      | Inr me_bytes \<Rightarrow>
          (case select_send c (pp_messages pp)
                  \<lparr>To = NetworkAddress to, Message = NewMessage V1 protocol_Pong NilGroupID me_bytes\<rparr> of
             (err, msgs) \<Rightarrow> (err, pp\<lparr>pp_messages := msgs\<rparr>)))"

text \<open>The loop of \<open>propagatePing\<close>; \<open>err\<close> is the variable holding the last error.\<close>

fun propagatePing_loop ::
  "ctx \<Rightarrow> bytes \<Rightarrow> peer_address list \<Rightarrow> error option
     \<Rightarrow> network_address message_on_the_wire list
     \<Rightarrow> error option \<times> network_address message_on_the_wire list" where
  "propagatePing_loop c body [] err msgs = (err, msgs)"
| "propagatePing_loop c body (a # as) err msgs =
     (case select_send c msgs
             \<lparr>To = NetworkAddress a, Message = NewMessage V1 protocol_Ping NilGroupID body\<rparr> of
        (Some cause, msgs') \<Rightarrow> propagatePing_loop c body as (Some cause) msgs'
      | (None, msgs') \<Rightarrow> propagatePing_loop c body as err msgs')"

text \<open>
  \<open>dht.PeerAddresses\<close> always returns a slice made by \<open>make\<close>, so the branch
  \<open>peerAddrs == nil\<close> of \<open>propagatePing\<close> is never taken and has no counterpart here.
\<close>

definition propagatePing :: "ctx \<Rightarrow> pingPonger \<Rightarrow> bytes \<Rightarrow> error option \<times> pingPonger" where
  "propagatePing c pp body =
     (case PeerAddresses (pp_dht pp) of
        Inl err \<Rightarrow> (Some err, pp)
      | Inr peerAddrs \<Rightarrow>
          (if length peerAddrs \<le> 0 then (Some ErrEmptyPeerAddresses, pp)
           else (case propagatePing_loop c body peerAddrs None (pp_messages pp) of
                   (err, msgs) \<Rightarrow> (err, pp\<lparr>pp_messages := msgs\<rparr>))))"

definition AcceptPing :: "nat \<Rightarrow> ctx \<Rightarrow> pingPonger \<Rightarrow> message \<Rightarrow> error option \<times> pingPonger" where
  "AcceptPing now c pp message =
     (case Decode (pp_codec pp) (Body message) of
        Inl err \<Rightarrow> (Some err, pp)
      | Inr peerAddr \<Rightarrow>
          (case updatePeerAddress now c pp peerAddr of
             ((didUpdate, Some err), pp1) \<Rightarrow> (Some err, pp1)
           | ((False, None), pp1) \<Rightarrow> (None, pp1)
           | ((True, None), pp1) \<Rightarrow>
               (case pong c pp1 peerAddr of
                  (Some err, pp2) \<Rightarrow> (Some err, pp2)
                | (None, pp2) \<Rightarrow> propagatePing c pp2 (Body message))))"

definition AcceptPong :: "nat \<Rightarrow> ctx \<Rightarrow> pingPonger \<Rightarrow> message \<Rightarrow> error option \<times> pingPonger" where
  "AcceptPong now c pp message =
     (case Decode (pp_codec pp) (Body message) of
        Inl err \<Rightarrow> (Some err, pp)
      | Inr peerAddr \<Rightarrow>
          (case updatePeerAddress now c pp peerAddr of
             ((didUpdate, err), pp1) \<Rightarrow> (err, pp1)))"

section \<open>The authenticated handshake (package handshake)\<close>

subsection \<open>Byte streams and fixed-width integers\<close>

text \<open>
  \<open>encoding/binary\<close> with \<open>binary.LittleEndian\<close>: a 64-bit integer is eight bytes, least
  significant first.
\<close>

fun le_bytes :: "nat \<Rightarrow> nat \<Rightarrow> bytes" where
  "le_bytes 0 v = []"
| "le_bytes (Suc n) v = of_nat (v mod 256) # le_bytes n (v div 256)"

fun le_value :: "bytes \<Rightarrow> nat" where
  "le_value [] = 0"
| "le_value (b # bs) = unat b + 256 * le_value bs"

definition put_uint64 :: "64 word \<Rightarrow> bytes" where
  "put_uint64 w = le_bytes 8 (unat w)"

definition get_uint64 :: "bytes \<Rightarrow> 64 word" where
  "get_uint64 bs = of_nat (le_value bs)"


definition io_ReadFull :: "bytes \<Rightarrow> nat \<Rightarrow> (error + bytes) \<times> bytes" where
  "io_ReadFull b n =
     (if n \<le> length b then (Inr (take n b), drop n b)
      else if b = [] then (Inl EOF, b)
      else (Inl ErrUnexpectedEOF, []))"

definition binary_Read_uint64 :: "bytes \<Rightarrow> (error + 64 word) \<times> bytes" where
  "binary_Read_uint64 b =
     (case io_ReadFull b 8 of
        (Inl err, b') \<Rightarrow> (Inl err, b')
      | (Inr bs, b') \<Rightarrow> (Inr (get_uint64 bs), b'))"



subsection \<open>External capabilities\<close>










subsection \<open>The functions of handshake.go\<close>








section \<open>Specification-side notions\<close>

text \<open>
  The specification's reading of group resolution: a member of a group resolves to self's
  address when it is self's PeerID, and otherwise to the address the peer index holds for
  it, if any.
\<close>

definition resolve_member :: "dht \<Rightarrow> peer_id \<Rightarrow> peer_address option" where
  "resolve_member d pid =
     (if pid = PeerID (me d) then Some (me d) else map_of (inMemCache d) pid)"

text \<open>
  The specification's invariant 1: the in-memory index and the persistent backing agree
  on the set of peers.
\<close>

definition views_agree :: "dht \<Rightarrow> bool" where
  "views_agree d = (dom (entries (store d)) = fst ` set (inMemCache d))"






section \<open>Example values\<close>

definition ex_me :: peer_address where
  "ex_me = \<lparr>PeerID = ''me'', NetworkAddress = ''10.0.0.1:18514'', Nonce = 1\<rparr>"

definition ex_bob :: peer_address where
  "ex_bob = \<lparr>PeerID = ''bob'', NetworkAddress = ''10.0.0.3:18514'', Nonce = 1\<rparr>"

definition ex_alice_old :: peer_address where
  "ex_alice_old = \<lparr>PeerID = ''alice'', NetworkAddress = ''10.0.0.2:18514'', Nonce = 1\<rparr>"

definition ex_alice :: peer_address where
  "ex_alice = \<lparr>PeerID = ''alice'', NetworkAddress = ''10.0.0.2:18514'', Nonce = 2\<rparr>"

text \<open>A toy codec: an address is encoded as its nonce, and every body is alice's address.\<close>

definition ex_codec :: peer_address_codec where
  "ex_codec =
     \<lparr>Encode = (\<lambda>a. Inr [word_of_int (Nonce a)]),
      Decode = (\<lambda>bs. case bs of
                   [] \<Rightarrow> Inl (ErrExternal ''short peer address'')
                 | n # rest \<Rightarrow>
                     Inr \<lparr>PeerID = ''alice'', NetworkAddress = ''10.0.0.2:18514'',
                          Nonce = uint n\<rparr>)\<rparr>"

definition ex_table :: "'v kv_table" where
  "ex_table =
     \<lparr>entries = Map.empty, Get_fault = (\<lambda>k. None), Insert_fault = (\<lambda>k. None),
      Delete_fault = (\<lambda>k. None)\<rparr>"

text \<open>A table on a medium that refuses every write.\<close>

definition ex_table_read_only :: "'v kv_table" where
  "ex_table_read_only =
     \<lparr>entries = Map.empty, Get_fault = (\<lambda>k. None),
      Insert_fault = (\<lambda>k. Some (ErrExternal ''disk full'')),
      Delete_fault = (\<lambda>k. Some (ErrExternal ''disk full''))\<rparr>"

text \<open>
  A directory that knows bob, and a group of three members of which alice is unknown to
  the peer index and \<open>me\<close> is self.
\<close>

definition ex_dht :: dht where
  "ex_dht =
     \<lparr>me = ex_me, codec = ex_codec,
      store = ex_table\<lparr>entries := [''bob'' \<mapsto> [1]]\<rparr>,
      groups = [GroupID 7 \<mapsto> [''alice'', ''me'', ''bob'']],
      inMemCache = [(''bob'', ex_bob)]\<rparr>"

definition ex_dht_read_only :: dht where
  "ex_dht_read_only = ex_dht\<lparr>store := ex_table_read_only\<lparr>entries := [''bob'' \<mapsto> [1]]\<rparr>\<rparr>"

text \<open>A toy fingerprint: it tells nil from named groups and bodies of different lengths.\<close>

definition ex_hash :: "message \<Rightarrow> string" where
  "ex_hash m =
     (case MsgGroupID m of NilGroupID \<Rightarrow> ''nil'' | GroupID n \<Rightarrow> ''group'')
       @ replicate (length (Body m)) CHR ''b''"

definition ex_broadcaster :: broadcaster where
  "ex_broadcaster =
     \<lparr>numWorkers = 8, b_store = ex_table, b_messages = [], b_events = [], b_dht = ex_dht\<rparr>"

definition ex_broadcaster_read_only :: broadcaster where
  "ex_broadcaster_read_only = ex_broadcaster\<lparr>b_store := ex_table_read_only\<rparr>"

definition ex_broadcaster_seen :: broadcaster where
  "ex_broadcaster_seen =
     ex_broadcaster\<lparr>b_store := ex_table\<lparr>entries := [''groupbb'' \<mapsto> True]\<rparr>\<rparr>"

definition ex_group :: "peer_id list" where
  "ex_group = [''alice'', ''me'', ''bob'']"

definition ex_broadcast_message :: message where
  "ex_broadcast_message = NewMessage V1 protocol_Broadcast (GroupID 7) [1, 2]"

definition ex_pingPonger :: pingPonger where
  "ex_pingPonger =
     \<lparr>pp_dht = ex_dht, pp_messages = [], pp_events = [], pp_codec = ex_codec, pp_me = ex_me\<rparr>"

definition ex_ping_from_alice :: message where
  "ex_ping_from_alice = NewMessage V1 protocol_Ping NilGroupID [2]"













section \<open>The directory: verification\<close>

lemma addPeerAddressWithoutLock_result:
  "addPeerAddressWithoutLock d a =
     (case Encode (codec d) a of
        Inl err \<Rightarrow> (Some (ErrEncodingPeerAddress a err), d)
      | Inr data \<Rightarrow>
          (case Insert_fault (store d) (PeerID a) of
             Some e \<Rightarrow> (Some (ErrInsertingPeerAddress a e), d)
           | None \<Rightarrow>
               (None, d\<lparr>store := (store d)\<lparr>entries := (entries (store d))(PeerID a \<mapsto> data)\<rparr>,
                        inMemCache := AList.update (PeerID a) a (inMemCache d)\<rparr>)))"
  by (simp add: addPeerAddressWithoutLock_def kv_Insert_def split: sum.splits option.splits)

lemma RemovePeerAddress_result:
  "RemovePeerAddress d pid =
     (case Delete_fault (store d) pid of
        Some e \<Rightarrow> (Some (ErrDeletingPeer pid e), d)
      | None \<Rightarrow>
          (None, d\<lparr>store := (store d)\<lparr>entries := (entries (store d))(pid := None)\<rparr>,
                   inMemCache := AList.delete pid (inMemCache d)\<rparr>))"
  by (simp add: RemovePeerAddress_def kv_Delete_def split: sum.splits option.splits)

lemma UpdatePeerAddress_keeps:
  "codec (snd (UpdatePeerAddress d x)) = codec d"
  "Insert_fault (store (snd (UpdatePeerAddress d x))) = Insert_fault (store d)"
  by (auto simp: UpdatePeerAddress_def addPeerAddressWithoutLock_result Let_def
        split: sum.splits option.splits)

lemma UpdatePeerAddress_newer:
  assumes "Encode (codec d) a = Inr da" and "Insert_fault (store d) (PeerID a) = None"
    and "IsNewer a (map_of (inMemCache d) (PeerID a))"
  shows "UpdatePeerAddress d a =
           ((True, None),
            d\<lparr>store := (store d)\<lparr>entries := (entries (store d))(PeerID a \<mapsto> da)\<rparr>,
              inMemCache := AList.update (PeerID a) a (inMemCache d)\<rparr>)"
  using assms by (simp add: UpdatePeerAddress_def addPeerAddressWithoutLock_result Let_def)

lemma UpdatePeerAddress_stale:
  assumes "map_of (inMemCache d) (PeerID b) = Some a" and "\<not> IsNewer b (Some a)"
  shows "UpdatePeerAddress d b = ((False, None), d)"
  using assms by (simp add: UpdatePeerAddress_def Let_def)

lemma UpdatePeerAddress_index_cases:
  "map_of (inMemCache (snd (UpdatePeerAddress d b))) (PeerID b) = map_of (inMemCache d) (PeerID b)
   \<or> map_of (inMemCache (snd (UpdatePeerAddress d b))) (PeerID b) = Some b"
  by (auto simp: UpdatePeerAddress_def addPeerAddressWithoutLock_result Let_def
        AList.update_conv' split: sum.splits option.splits)

text \<open>
  Claim C5. Let \<open>a\<close> and \<open>b\<close> be addresses of the same peer with \<open>a\<close>'s nonce the higher,
  in a directory that stores no address for that peer or one older than \<open>a\<close>, whose codec
  encodes \<open>a\<close> and whose backing table accepts the insert. Then \<open>UpdatePeerAddress\<close> of \<open>b\<close>
  followed by \<open>a\<close> leaves the directory holding \<open>a\<close>, and so does \<open>a\<close> followed by \<open>b\<close>.
\<close>

theorem UpdatePeerAddress_higher_nonce_wins:
  assumes "PeerID a = PeerID b" and "Nonce b < Nonce a"
    and "Encode (codec d) a = Inr da"
    and "Insert_fault (store d) (PeerID a) = None"
    and "IsNewer a (map_of (inMemCache d) (PeerID a))"
  shows "PeerAddress (snd (UpdatePeerAddress (snd (UpdatePeerAddress d b)) a)) (PeerID a) = Inr a
       \<and> PeerAddress (snd (UpdatePeerAddress (snd (UpdatePeerAddress d a)) b)) (PeerID a) = Inr a"
proof
  let ?d1 = "snd (UpdatePeerAddress d b)"
  have n: "IsNewer a (map_of (inMemCache ?d1) (PeerID a))"
    using UpdatePeerAddress_index_cases[of d b] assms by (auto simp: IsNewer_def)
  have "UpdatePeerAddress ?d1 a =
          ((True, None),
           ?d1\<lparr>store := (store ?d1)\<lparr>entries := (entries (store ?d1))(PeerID a \<mapsto> da)\<rparr>,
               inMemCache := AList.update (PeerID a) a (inMemCache ?d1)\<rparr>)"
    by (rule UpdatePeerAddress_newer) (use assms n in \<open>simp_all add: UpdatePeerAddress_keeps\<close>)
  then show "PeerAddress (snd (UpdatePeerAddress ?d1 a)) (PeerID a) = Inr a"
    by (simp add: PeerAddress_def AList.update_conv')
next
  let ?d1 = "snd (UpdatePeerAddress d a)"
  have 1: "UpdatePeerAddress d a =
            ((True, None),
             d\<lparr>store := (store d)\<lparr>entries := (entries (store d))(PeerID a \<mapsto> da)\<rparr>,
               inMemCache := AList.update (PeerID a) a (inMemCache d)\<rparr>)"
    by (rule UpdatePeerAddress_newer) (use assms in simp_all)
  have m: "map_of (inMemCache ?d1) (PeerID b) = Some a"
    using assms by (simp add: 1 AList.update_conv')
  have "UpdatePeerAddress ?d1 b = ((False, None), ?d1)"
    by (rule UpdatePeerAddress_stale[OF m]) (use assms in \<open>simp add: IsNewer_def\<close>)
  then show "PeerAddress (snd (UpdatePeerAddress ?d1 b)) (PeerID a) = Inr a"
    using m assms by (simp add: PeerAddress_def)
qed

theorem UpdatePeerAddress_higher_nonce_wins_witness:
  "PeerID ex_alice = PeerID ex_alice_old \<and> Nonce ex_alice_old < Nonce ex_alice
   \<and> PeerAddress (snd (UpdatePeerAddress (snd (UpdatePeerAddress ex_dht ex_alice_old)) ex_alice))
        ''alice'' = Inr ex_alice
   \<and> PeerAddress (snd (UpdatePeerAddress (snd (UpdatePeerAddress ex_dht ex_alice)) ex_alice_old))
        ''alice'' = Inr ex_alice"
  using UpdatePeerAddress_higher_nonce_wins[of ex_alice ex_alice_old ex_dht "[2]"]
  by (simp add: ex_alice_def ex_alice_old_def ex_dht_def ex_codec_def ex_table_def IsNewer_def)

lemma GroupAddresses_loop_map_filter:
  "GroupAddresses_loop d ids addrs = addrs @ List.map_filter (resolve_member d) ids"
  by (induction ids arbitrary: addrs)
     (auto simp: resolve_member_def List.map_filter_simps split: option.splits)

text \<open>
  Claim C6. For a named group stored in the directory, \<open>GroupAddresses\<close> returns, without
  error and in the order of the membership list, the addresses of exactly the members
  that resolve: a member unknown to the peer index is skipped, and self's own address is
  included whenever self's PeerID is a member, whatever the peer index holds.
\<close>

theorem GroupAddresses_resolvable_members:
  assumes "g \<noteq> NilGroupID" and "groups d g = Some ids"
  shows "GroupAddresses d g = Inr (List.map_filter (resolve_member d) ids)
       \<and> (PeerID (me d) \<in> set ids \<longrightarrow> me d \<in> set (List.map_filter (resolve_member d) ids))"
  using assms
  by (auto simp: GroupAddresses_def GroupIDs_def GroupAddresses_loop_map_filter
        List.map_filter_def resolve_member_def image_iff intro!: bexI[of _ "PeerID (me d)"])

theorem GroupAddresses_resolvable_members_witness:
  "GroupID 7 \<noteq> NilGroupID \<and> groups ex_dht (GroupID 7) = Some [''alice'', ''me'', ''bob'']
   \<and> PeerID (me ex_dht) \<in> set [''alice'', ''me'', ''bob'']
   \<and> GroupAddresses ex_dht (GroupID 7) = Inr [ex_me, ex_bob]
   \<and> me ex_dht \<in> set [ex_me, ex_bob]"
  using GroupAddresses_resolvable_members[of "GroupID 7" ex_dht "[''alice'', ''me'', ''bob'']"]
  by (simp add: ex_dht_def ex_me_def ex_bob_def List.map_filter_def resolve_member_def)

lemma fst_set_delete: "fst ` set (AList.delete k al) = fst ` set al - {k}"
  using arg_cong[OF AList.delete_keys[of k al], of set] by simp

text \<open>
  Claim C7. When adding or removing a peer address fails (the codec or the backing table
  returns an error), the operation returns an error and neither the in-memory index nor
  the backing table has changed; and in every outcome of either operation, an index and
  a backing table that agreed on the set of peers before still agree afterwards. The
  index is therefore only written after a successful backing write.
\<close>

theorem failed_backing_write_leaves_index_unchanged:
  "(fst (AddPeerAddress d a) \<noteq> None \<longrightarrow>
       inMemCache (snd (AddPeerAddress d a)) = inMemCache d
     \<and> entries (store (snd (AddPeerAddress d a))) = entries (store d))
 \<and> (fst (RemovePeerAddress d pid) \<noteq> None \<longrightarrow>
       inMemCache (snd (RemovePeerAddress d pid)) = inMemCache d
     \<and> entries (store (snd (RemovePeerAddress d pid))) = entries (store d))
 \<and> (views_agree d \<longrightarrow>
       views_agree (snd (AddPeerAddress d a)) \<and> views_agree (snd (RemovePeerAddress d pid)))"
  by (auto simp: AddPeerAddress_def addPeerAddressWithoutLock_result RemovePeerAddress_result
        views_agree_def AList.dom_update fst_set_delete split: sum.splits option.splits)

theorem failed_backing_write_leaves_index_unchanged_witness:
  "fst (AddPeerAddress ex_dht_read_only ex_alice) \<noteq> None
   \<and> inMemCache (snd (AddPeerAddress ex_dht_read_only ex_alice)) = [(''bob'', ex_bob)]
   \<and> fst (RemovePeerAddress ex_dht_read_only ''bob'') \<noteq> None
   \<and> inMemCache (snd (RemovePeerAddress ex_dht_read_only ''bob'')) = [(''bob'', ex_bob)]
   \<and> views_agree ex_dht_read_only
   \<and> views_agree (snd (AddPeerAddress ex_dht_read_only ex_alice))
   \<and> views_agree (snd (RemovePeerAddress ex_dht_read_only ''bob''))"
  using failed_backing_write_leaves_index_unchanged[of ex_dht_read_only ex_alice "''bob''"]
  by (simp add: AddPeerAddress_def addPeerAddressWithoutLock_result RemovePeerAddress_result
        views_agree_def ex_dht_read_only_def ex_dht_def ex_table_read_only_def ex_table_def
        ex_codec_def ex_alice_def)

section \<open>The broadcaster: verification\<close>

lemma ParForAllAddresses_live:
  "ParForAllAddresses (map Some addrs) n (Broadcast_worker None m) msgs
     = msgs @ map (\<lambda>a. \<lparr>To = a, Message = m\<rparr>) addrs"
  by (induction addrs arbitrary: msgs) (simp_all add: Broadcast_worker_def select_send_def)

lemma Broadcast_fresh:
  assumes "Get_fault (b_store b) (Hash (NewMessage V1 protocol_Broadcast g body)) = None"
    and "entries (b_store b) (Hash (NewMessage V1 protocol_Broadcast g body)) = None"
    and "Insert_fault (b_store b) (Hash (NewMessage V1 protocol_Broadcast g body)) = None"
    and "GroupAddresses (b_dht b) g = Inr addrs"
  shows "Broadcast Hash None b g body =
           (None,
            b\<lparr>b_store := (b_store b)\<lparr>entries :=
                  (entries (b_store b))(Hash (NewMessage V1 protocol_Broadcast g body) \<mapsto> True)\<rparr>,
              b_messages := b_messages b
                  @ map (\<lambda>a. \<lparr>To = a, Message = NewMessage V1 protocol_Broadcast g body\<rparr>) addrs\<rparr>)"
  using assms
  by (simp add: Broadcast_def Let_def messageHashAlreadySeen_def kv_Get_def kv_Insert_def
        ParForAllAddresses_live)

lemma Broadcast_seen:
  assumes "kv_Get (b_store b) (Hash (NewMessage V1 protocol_Broadcast g body)) = Inr True"
  shows "Broadcast Hash c b g body = (None, b)"
  using assms by (simp add: Broadcast_def Let_def messageHashAlreadySeen_def)

lemma Broadcast_lookup_failure:
  assumes "kv_Get (b_store b) (Hash (NewMessage V1 protocol_Broadcast g body)) = Inl e"
    and "e \<noteq> ErrKeyNotFound"
  shows "Broadcast Hash c b g body =
           (Some (ErrBroadcastInternal
                    (ErrGettingMessageHash (Hash (NewMessage V1 protocol_Broadcast g body)) e)), b)"
  using assms by (simp add: Broadcast_def Let_def messageHashAlreadySeen_def)

lemma Broadcast_insert_failure:
  assumes "kv_Get (b_store b) (Hash (NewMessage V1 protocol_Broadcast g body)) = Inl ErrKeyNotFound"
    and "GroupAddresses (b_dht b) g = Inr addrs"
    and "Insert_fault (b_store b) (Hash (NewMessage V1 protocol_Broadcast g body)) = Some e"
  shows "Broadcast Hash None b g body = (Some e, b)"
  using assms by (simp add: Broadcast_def Let_def messageHashAlreadySeen_def kv_Insert_def)

lemma ex_GroupAddresses: "GroupAddresses ex_dht (GroupID 7) = Inr [ex_me, ex_bob]"
  by (simp add: GroupAddresses_def GroupIDs_def GroupAddresses_loop_map_filter
        List.map_filter_def resolve_member_def ex_dht_def ex_me_def ex_bob_def)

lemma ex_Broadcast_first:
  "Broadcast ex_hash None ex_broadcaster (GroupID 7) [1, 2] =
     (None,
      ex_broadcaster\<lparr>b_store := ex_table\<lparr>entries := [''groupbb'' \<mapsto> True]\<rparr>,
        b_messages := [\<lparr>To = ex_me, Message = ex_broadcast_message\<rparr>,
                       \<lparr>To = ex_bob, Message = ex_broadcast_message\<rparr>]\<rparr>)"
  using Broadcast_fresh[of ex_broadcaster ex_hash "GroupID 7" "[1, 2]" "[ex_me, ex_bob]"]
  by (simp add: ex_broadcaster_def ex_table_def ex_GroupAddresses ex_broadcast_message_def)
     (simp add: ex_hash_def NewMessage_def)

text \<open>
  Claim C2, as stated, fails: the group \<open>[alice, me, bob]\<close> has three members, of which
  alice is unknown to the peer index; two calls of \<open>Broadcast\<close> with the same body both
  succeed and enqueue two messages in total, not three.
\<close>

theorem Broadcast_twice_counterexample:
  "groups (b_dht ex_broadcaster) (GroupID 7) = Some ex_group
   \<and> b_messages ex_broadcaster = []
   \<and> fst (Broadcast ex_hash None ex_broadcaster (GroupID 7) [1, 2]) = None
   \<and> fst (Broadcast ex_hash None
            (snd (Broadcast ex_hash None ex_broadcaster (GroupID 7) [1, 2])) (GroupID 7) [1, 2]) = None
   \<and> length (b_messages (snd (Broadcast ex_hash None
            (snd (Broadcast ex_hash None ex_broadcaster (GroupID 7) [1, 2])) (GroupID 7) [1, 2])))
       \<noteq> length ex_group"
proof -
  let ?b1 = "ex_broadcaster\<lparr>b_store := ex_table\<lparr>entries := [''groupbb'' \<mapsto> True]\<rparr>,
        b_messages := [\<lparr>To = ex_me, Message = ex_broadcast_message\<rparr>,
                       \<lparr>To = ex_bob, Message = ex_broadcast_message\<rparr>]\<rparr>"
  have 2: "Broadcast ex_hash None ?b1 (GroupID 7) [1, 2] = (None, ?b1)"
    by (rule Broadcast_seen)
       (simp add: kv_Get_def ex_table_def ex_hash_def NewMessage_def ex_broadcaster_def)
  show ?thesis
    by (simp add: ex_Broadcast_first 2 ex_group_def) (simp add: ex_broadcaster_def ex_dht_def)
qed

text \<open>
  Claim C2, amended. With a live context, a dedup store that answers for the message's
  hash without fault and does not hold it yet, and a group \<open>g\<close> that the directory resolves
  to the addresses \<open>addrs\<close> (one per resolvable member), two calls of \<open>Broadcast\<close> in
  succession enqueue exactly one message per address of \<open>addrs\<close>, all by the first call:
  the second call finds the hash, returns success and changes nothing.
\<close>

theorem Broadcast_twice_enqueues_once_per_address:
  assumes "Get_fault (b_store b) (Hash (NewMessage V1 protocol_Broadcast g body)) = None"
    and "entries (b_store b) (Hash (NewMessage V1 protocol_Broadcast g body)) = None"
    and "Insert_fault (b_store b) (Hash (NewMessage V1 protocol_Broadcast g body)) = None"
    and "GroupAddresses (b_dht b) g = Inr addrs"
  shows "fst (Broadcast Hash None b g body) = None
       \<and> b_messages (snd (Broadcast Hash None b g body))
           = b_messages b
               @ map (\<lambda>a. \<lparr>To = a, Message = NewMessage V1 protocol_Broadcast g body\<rparr>) addrs
       \<and> Broadcast Hash None (snd (Broadcast Hash None b g body)) g body
           = (None, snd (Broadcast Hash None b g body))
       \<and> length (b_messages (snd (Broadcast Hash None (snd (Broadcast Hash None b g body)) g body)))
           = length (b_messages b) + length addrs"
proof -
  let ?m = "NewMessage V1 protocol_Broadcast g body"
  let ?b1 = "b\<lparr>b_store := (b_store b)\<lparr>entries := (entries (b_store b))(Hash ?m \<mapsto> True)\<rparr>,
                b_messages := b_messages b @ map (\<lambda>a. \<lparr>To = a, Message = ?m\<rparr>) addrs\<rparr>"
  have 1: "Broadcast Hash None b g body = (None, ?b1)"
    using assms by (rule Broadcast_fresh)
  have 2: "Broadcast Hash None ?b1 g body = (None, ?b1)"
    by (rule Broadcast_seen) (use assms in \<open>simp add: kv_Get_def\<close>)
  show ?thesis by (simp add: 1 2)
qed

theorem Broadcast_twice_enqueues_once_per_address_witness:
  "GroupAddresses (b_dht ex_broadcaster) (GroupID 7) = Inr [ex_me, ex_bob]
   \<and> fst (Broadcast ex_hash None ex_broadcaster (GroupID 7) [1, 2]) = None
   \<and> b_messages (snd (Broadcast ex_hash None ex_broadcaster (GroupID 7) [1, 2]))
       = [\<lparr>To = ex_me, Message = ex_broadcast_message\<rparr>,
          \<lparr>To = ex_bob, Message = ex_broadcast_message\<rparr>]
   \<and> length (b_messages (snd (Broadcast ex_hash None
            (snd (Broadcast ex_hash None ex_broadcaster (GroupID 7) [1, 2])) (GroupID 7) [1, 2])))
       = 2"
  using Broadcast_twice_enqueues_once_per_address
          [of ex_broadcaster ex_hash "GroupID 7" "[1, 2]" "[ex_me, ex_bob]"]
  by (simp add: ex_broadcaster_def ex_table_def ex_GroupAddresses ex_broadcast_message_def)




text \<open>
  Claim C4, evaluated where it fails. The dedup table finds no entry for the hash and
  refuses the insert with the error "disk full". \<open>Broadcast\<close> returns that error as it
  is, not wrapped into \<open>ErrBroadcastInternal\<close>; \<open>AcceptBroadcast\<close>, which ends in
  \<open>Broadcast\<close>, does the same after having emitted its event.
\<close>

theorem Broadcast_insert_failure_not_wrapped:
  "Broadcast ex_hash None ex_broadcaster_read_only (GroupID 7) [1, 2]
     = (Some (ErrExternal ''disk full''), ex_broadcaster_read_only)
   \<and> fst (AcceptBroadcast ex_hash 0 None ex_broadcaster_read_only ''bob'' ex_broadcast_message)
     = Some (ErrExternal ''disk full'')"
proof
  show 1: "Broadcast ex_hash None ex_broadcaster_read_only (GroupID 7) [1, 2]
     = (Some (ErrExternal ''disk full''), ex_broadcaster_read_only)"
    by (rule Broadcast_insert_failure[where addrs = "[ex_me, ex_bob]"])
       (simp_all add: ex_broadcaster_read_only_def ex_broadcaster_def ex_table_read_only_def
          kv_Get_def ex_GroupAddresses)
  let ?b = "ex_broadcaster_read_only
              \<lparr>b_events := [EventMessageReceived 0 [1, 2] (Some ''bob'')]\<rparr>"
  have "Broadcast ex_hash None ?b (GroupID 7) [1, 2] = (Some (ErrExternal ''disk full''), ?b)"
    by (rule Broadcast_insert_failure[where addrs = "[ex_me, ex_bob]"])
       (simp_all add: ex_broadcaster_read_only_def ex_broadcaster_def ex_table_read_only_def
          kv_Get_def ex_GroupAddresses)
  then show "fst (AcceptBroadcast ex_hash 0 None ex_broadcaster_read_only ''bob''
                    ex_broadcast_message) = Some (ErrExternal ''disk full'')"
    by (simp add: AcceptBroadcast_def ex_broadcast_message_def NewMessage_def
          messageHashAlreadySeen_def kv_Get_def select_send_def
          ex_broadcaster_read_only_def ex_broadcaster_def ex_table_read_only_def)
qed

text \<open>
  Claim C10. For a message of version V1 and variant Broadcast whose hash the dedup
  store holds, \<open>AcceptBroadcast\<close> returns success and leaves the broadcaster as it was (no
  event, nothing enqueued), whatever the state of the context, done or live.
\<close>

theorem AcceptBroadcast_duplicate_ignores_cancellation:
  assumes "Version m = V1" and "Variant m = protocol_Broadcast"
    and "kv_Get (b_store b) (Hash m) = Inr True"
  shows "AcceptBroadcast Hash now c b sender m = (None, b)"
  using assms by (simp add: AcceptBroadcast_def messageHashAlreadySeen_def)

theorem AcceptBroadcast_duplicate_ignores_cancellation_witness:
  "Version ex_broadcast_message = V1 \<and> Variant ex_broadcast_message = protocol_Broadcast
   \<and> kv_Get (b_store ex_broadcaster_seen) (ex_hash ex_broadcast_message) = Inr True
   \<and> AcceptBroadcast ex_hash 0 (Some ContextCanceled) ex_broadcaster_seen ''bob''
        ex_broadcast_message = (None, ex_broadcaster_seen)"
  using AcceptBroadcast_duplicate_ignores_cancellation
          [of ex_broadcast_message ex_broadcaster_seen ex_hash 0 "Some ContextCanceled" "''bob''"]
  by (simp add: ex_broadcast_message_def NewMessage_def ex_broadcaster_seen_def
        ex_broadcaster_def ex_table_def kv_Get_def ex_hash_def)

section \<open>The ping/pong engine: verification\<close>

text \<open>
  For a peer the directory already knows, \<open>AcceptPing\<close> behaves as specified: a stale
  address is ignored, a newer one is stored, answered by a Pong and propagated to every
  known peer.
\<close>

lemma propagatePing_loop_live:
  "propagatePing_loop None body addrs err msgs =
     (err, msgs @ map (\<lambda>a. \<lparr>To = NetworkAddress a,
                              Message = NewMessage V1 protocol_Ping NilGroupID body\<rparr>) addrs)"
  by (induction addrs arbitrary: msgs) (simp_all add: select_send_def)

lemma update_not_Nil: "AList.update k v al \<noteq> []"
  by (cases al) auto

lemma AcceptPing_stale:
  assumes "Decode (pp_codec pp) (Body m) = Inr p"
    and "map_of (inMemCache (pp_dht pp)) (PeerID p) = Some prev"
    and "Nonce p \<le> Nonce prev"
  shows "AcceptPing now c pp m = (None, pp)"
  using assms
  by (simp add: AcceptPing_def updatePeerAddress_def PeerAddress_def IsNewer_def)

lemma AcceptPing_newer:
  assumes "Decode (pp_codec pp) (Body m) = Inr p"
    and "map_of (inMemCache (pp_dht pp)) (PeerID p) = Some prev"
    and "Nonce prev < Nonce p"
    and "Encode (codec (pp_dht pp)) p = Inr data"
    and "Insert_fault (store (pp_dht pp)) (PeerID p) = None"
    and "Encode (pp_codec pp) (pp_me pp) = Inr me_bytes"
  shows "AcceptPing now None pp m =
     (None,
      pp\<lparr>pp_dht := (pp_dht pp)
            \<lparr>store := (store (pp_dht pp))
                 \<lparr>entries := (entries (store (pp_dht pp)))(PeerID p \<mapsto> data)\<rparr>,
             inMemCache := AList.update (PeerID p) p (inMemCache (pp_dht pp))\<rparr>,
         pp_messages := pp_messages pp
            @ \<lparr>To = NetworkAddress p, Message = NewMessage V1 protocol_Pong NilGroupID me_bytes\<rparr>
            # map (\<lambda>a. \<lparr>To = NetworkAddress a,
                           Message = NewMessage V1 protocol_Ping NilGroupID (Body m)\<rparr>)
                (map snd (AList.update (PeerID p) p (inMemCache (pp_dht pp)))),
         pp_events := pp_events pp @ [EventPeerChanged now p]\<rparr>)"
  using assms
  by (simp add: AcceptPing_def updatePeerAddress_def PeerAddress_def IsNewer_def
        AddPeerAddress_def addPeerAddressWithoutLock_result select_send_def pong_def
        propagatePing_def PeerAddresses_def propagatePing_loop_live update_not_Nil)

lemma AcceptPing_unknown_peer:
  assumes "Decode (pp_codec pp) (Body m) = Inr p"
    and "map_of (inMemCache (pp_dht pp)) (PeerID p) = None"
  shows "AcceptPing now c pp m = (Some (ErrPeerNotFound (PeerID p)), pp)"
  using assms by (simp add: AcceptPing_def updatePeerAddress_def PeerAddress_def)

text \<open>
  Claim C1, evaluated where it fails. The directory knows bob only, and a Ping arrives
  whose body decodes to alice's address. \<open>AcceptPing\<close> returns the directory's
  "peer not found" error and changes nothing: alice's address is not stored, no Pong is
  sent and the ping is not propagated.
\<close>

theorem AcceptPing_from_unknown_peer_fails:
  "Decode (pp_codec ex_pingPonger) (Body ex_ping_from_alice) = Inr ex_alice
   \<and> PeerAddress (pp_dht ex_pingPonger) ''alice'' = Inl (ErrPeerNotFound ''alice'')
   \<and> AcceptPing 0 None ex_pingPonger ex_ping_from_alice
       = (Some (ErrPeerNotFound ''alice''), ex_pingPonger)"
  using AcceptPing_unknown_peer[of ex_pingPonger ex_ping_from_alice ex_alice 0 None]
  by (simp add: ex_pingPonger_def ex_codec_def ex_ping_from_alice_def NewMessage_def
        ex_alice_def ex_dht_def PeerAddress_def)

section \<open>The handshake: verification\<close>

lemma length_le_bytes [simp]: "length (le_bytes n v) = n"
  by (induction n arbitrary: v) simp_all

lemma le_value_le_bytes: "le_value (le_bytes n v) = v mod 256 ^ n"
proof (induction n arbitrary: v)
  case 0
  then show ?case by simp
next
  case (Suc n)
  have "unat (of_nat (v mod 256) :: 8 word) = v mod 256"
    by (simp add: unat_of_nat)
  then show ?case
    using Suc by (simp add: mod_mult2_eq)
qed

lemma get_put_uint64 [simp]: "get_uint64 (put_uint64 w) = w"
proof -
  have "unat w < 2 ^ 64" using unsigned_less[of w, where 'a = nat] by simp
  then have "unat w mod 256 ^ 8 = unat w" by simp
  then show ?thesis by (simp add: get_uint64_def put_uint64_def le_value_le_bytes)
qed

lemma length_put_uint64 [simp]: "length (put_uint64 w) = 8"
  by (simp add: put_uint64_def)

lemma binary_Read_uint64_put [simp]:
  "binary_Read_uint64 (put_uint64 w @ rest) = (Inr w, rest)"
  by (simp add: binary_Read_uint64_def io_ReadFull_def)













end
